theory Spec2Isabelle
  imports Main
begin

section \<open>Python values\<close>

text \<open>
  The handlers of \<^verbatim>\<open>app.py\<close> work on whatever \<^verbatim>\<open>json.loads\<close> produced:
  \<^verbatim>\<open>None\<close>, booleans, integers, floats, strings, lists and dictionaries with string keys.
  A float is \<open>Finite m e\<close> for the value \<open>m * 2 ^ e\<close>, an infinity (with its sign) or a
  not-a-number; the program only ever tests a float for truth. A dictionary is the list of
  its items; a parsed dictionary holds every key once, and \<open>map_of\<close> looks a key up.
\<close>

datatype pyfloat = Finite int int | Inf bool | NaN

datatype json =
    JNull
  | JBool bool
  | JInt int
  | JFloat pyfloat
  | JStr string
  | JArr "json list"
  | JObj "(string \<times> json) list"

text \<open>
  The exceptions that can occur. All of them are subclasses of \<^verbatim>\<open>Exception\<close>, which is what
  the \<^verbatim>\<open>except Exception\<close> clauses of the program catch. \<open>BadRequest\<close> is werkzeug's,
  \<open>RequestException\<close> stands for whatever \<^verbatim>\<open>requests.post\<close> raises, \<open>JSONDecodeError\<close> for
  what \<^verbatim>\<open>response.json()\<close> raises on a body that is not JSON.
\<close>

datatype py_exn =
    AttributeError
  | TypeError
  | KeyError
  | IndexError
  | BadRequest
  | RequestException
  | JSONDecodeError

text \<open>Truth value testing (\<^verbatim>\<open>if x:\<close>).\<close>

fun truthy :: "json \<Rightarrow> bool" where
  "truthy JNull = False"
| "truthy (JBool b) = b"
| "truthy (JInt n) = (n \<noteq> 0)"
| "truthy (JFloat (Finite m e)) = (m \<noteq> 0)"
| "truthy (JFloat (Inf s)) = True"
| "truthy (JFloat NaN) = True"
| "truthy (JStr s) = (s \<noteq> [])"
| "truthy (JArr xs) = (xs \<noteq> [])"
| "truthy (JObj kvs) = (kvs \<noteq> [])"

text \<open>\<^verbatim>\<open>x.get(k, d)\<close>: only a dictionary has the method.\<close>

fun py_get :: "json \<Rightarrow> string \<Rightarrow> json \<Rightarrow> py_exn + json" where
  "py_get (JObj kvs) k d = Inr (case map_of kvs k of Some v \<Rightarrow> v | None \<Rightarrow> d)"
| "py_get _ k d = Inl AttributeError"

text \<open>
  \<^verbatim>\<open>x[0]\<close>: the first element of a list, the first character of a string (as a string
  of length one), \<^verbatim>\<open>IndexError\<close> when either is empty. The keys of a parsed dictionary are
  strings, so \<^verbatim>\<open>0\<close> is never one of them. Nothing else can be subscripted.
  The program applies \<^verbatim>\<open>.get\<close> or a subscript by a name to what \<^verbatim>\<open>x[0]\<close> gave; on
  a string, whatever its characters, both raise.
\<close>

fun getitem_0 :: "json \<Rightarrow> py_exn + json" where
  "getitem_0 (JArr []) = Inl IndexError"
| "getitem_0 (JArr (x # xs)) = Inr x"
| "getitem_0 (JStr []) = Inl IndexError"
| "getitem_0 (JStr (c # cs)) = Inr (JStr [c])"
| "getitem_0 (JObj kvs) = Inl KeyError"
| "getitem_0 _ = Inl TypeError"

text \<open>\<^verbatim>\<open>x[k]\<close> for a string \<open>k\<close>: lists and strings want integer indices.\<close>

fun getitem_str :: "json \<Rightarrow> string \<Rightarrow> py_exn + json" where
  "getitem_str (JObj kvs) k = (case map_of kvs k of Some v \<Rightarrow> Inr v | None \<Rightarrow> Inl KeyError)"
| "getitem_str _ k = Inl TypeError"

text \<open>
  \<^verbatim>\<open>not v\<close> and \<^verbatim>\<open>f"{v}"\<close> for a value of \<^verbatim>\<open>os.getenv\<close>, which is a string or
  \<^verbatim>\<open>None\<close>.
\<close>

fun py_not :: "string option \<Rightarrow> bool" where
  "py_not None = True"
| "py_not (Some s) = (s = [])"

fun py_format :: "string option \<Rightarrow> string" where
  "py_format None = ''None''"
| "py_format (Some s) = s"

section \<open>Configuration\<close>

text \<open>
  Lines 20 to 23: the four module-level constants, read from the environment when the
  module is loaded. \<^verbatim>\<open>VERIFY_TOKEN\<close> has a default and is always a string.
\<close>

record config =
  WHATSAPP_TOKEN :: "string option"
  WHATSAPP_PHONE_ID :: "string option"
  DEEPSEEK_API_KEY :: "string option"
  VERIFY_TOKEN :: string

definition load_config :: "(string \<Rightarrow> string option) \<Rightarrow> config" where
  "load_config getenv =
     \<lparr> WHATSAPP_TOKEN = getenv ''WHATSAPP_TOKEN'',
       WHATSAPP_PHONE_ID = getenv ''WHATSAPP_PHONE_ID'',
       DEEPSEEK_API_KEY = getenv ''DEEPSEEK_API_KEY'',
       VERIFY_TOKEN = (case getenv ''VERIFY_TOKEN'' of Some s \<Rightarrow> s | None \<Rightarrow> ''deepseek-bot'') \<rparr>"

section \<open>Outbound HTTP\<close>

text \<open>
  A call of \<^verbatim>\<open>requests.post(url, headers=headers, json=payload)\<close> is recorded with its three
  arguments. It either raises or gives a response, of which the program reads the status
  code and, through \<^verbatim>\<open>response.json()\<close>, the body; \<open>json_result\<close> is what that method does.
  The network is a parameter: any function from the calls made so far and the present call
  to an outcome. Every computation takes the list of calls made so far and returns it
  extended, next to its value or the exception it raised.
\<close>

record http_call =
  url :: string
  headers :: "(string \<times> string) list"
  payload :: json

record response =
  status_code :: int
  json_result :: "py_exn + json"

type_synonym transport = "http_call list \<Rightarrow> http_call \<Rightarrow> py_exn + response"

type_synonym 'a io = "http_call list \<Rightarrow> (py_exn + 'a) \<times> http_call list"

definition ret :: "'a \<Rightarrow> 'a io" where
  "ret v tr = (Inr v, tr)"

definition lift :: "py_exn + 'a \<Rightarrow> 'a io" where
  "lift r tr = (r, tr)"

definition bind :: "'a io \<Rightarrow> ('a \<Rightarrow> 'b io) \<Rightarrow> 'b io" where
  "bind m f tr = (case m tr of (Inl e, tr') \<Rightarrow> (Inl e, tr') | (Inr v, tr') \<Rightarrow> f v tr')"

definition try_except :: "'a io \<Rightarrow> (py_exn \<Rightarrow> 'a io) \<Rightarrow> 'a io" where
  "try_except body handler tr =
     (case body tr of (Inl e, tr') \<Rightarrow> handler e tr' | (Inr v, tr') \<Rightarrow> (Inr v, tr'))"

definition bindE :: "py_exn + 'a \<Rightarrow> ('a \<Rightarrow> py_exn + 'b) \<Rightarrow> py_exn + 'b" where
  "bindE r f = (case r of Inl e \<Rightarrow> Inl e | Inr v \<Rightarrow> f v)"

definition requests_post :: "transport \<Rightarrow> http_call \<Rightarrow> response io" where
  "requests_post net c tr = (net tr c, tr @ [c])"

section \<open>Outbound Sender\<close>

definition whatsapp_call :: "config \<Rightarrow> json \<Rightarrow> json \<Rightarrow> http_call" where
  "whatsapp_call cfg to message =
     \<lparr> url = ''https://graph.facebook.com/v20.0/'' @ py_format (WHATSAPP_PHONE_ID cfg) @ ''/messages'',
       headers = [(''Authorization'', ''Bearer '' @ py_format (WHATSAPP_TOKEN cfg)),
                  (''Content-Type'', ''application/json'')],
       payload = JObj [(''messaging_product'', JStr ''whatsapp''),
                       (''to'', to),
                       (''type'', JStr ''text''),
                       (''text'', JObj [(''body'', message)])] \<rparr>"

definition send_whatsapp_message :: "config \<Rightarrow> transport \<Rightarrow> json \<Rightarrow> json \<Rightarrow> bool io" where
  "send_whatsapp_message cfg net to message =
     (if py_not (WHATSAPP_TOKEN cfg) \<or> py_not (WHATSAPP_PHONE_ID cfg) then ret False
      else
        try_except
          (bind (requests_post net (whatsapp_call cfg to message)) (\<lambda>response.
             if status_code response = 200 then ret True
             else ret False))
          (\<lambda>e. ret False))"

section \<open>Completion Client\<close>

definition deepseek_call :: "config \<Rightarrow> json \<Rightarrow> http_call" where
  "deepseek_call cfg user_message =
     \<lparr> url = ''https://api.deepseek.com/v1/chat/completions'',
       headers = [(''Authorization'', ''Bearer '' @ py_format (DEEPSEEK_API_KEY cfg)),
                  (''Content-Type'', ''application/json'')],
       payload = JObj [(''model'', JStr ''deepseek-chat''),
                       (''messages'', JArr [JObj [(''role'', JStr ''user''),
                                                  (''content'', user_message)]]),
                       (''temperature'', JFloat (Finite 3152519739159347 (- 52))),
                       (''max_tokens'', JInt 1000)] \<rparr>"

definition get_deepseek_reply :: "config \<Rightarrow> transport \<Rightarrow> json \<Rightarrow> json io" where
  "get_deepseek_reply cfg net user_message =
     (if py_not (DEEPSEEK_API_KEY cfg) then ret (JStr ''DeepSeek API key not configured!'')
      else
        try_except
          (bind (requests_post net (deepseek_call cfg user_message)) (\<lambda>response.
             if status_code response = 200 then
               lift (bindE (json_result response) (\<lambda>body.
                     bindE (getitem_str body ''choices'') (\<lambda>choices.
                     bindE (getitem_0 choices) (\<lambda>choice.
                     bindE (getitem_str choice ''message'') (\<lambda>message.
                     getitem_str message ''content'')))))
             else ret (JStr ''Sorry, I'm having trouble processing your request right now.'')))
          (\<lambda>e. ret (JStr ''Sorry, I encountered an error while processing your message.'')))"

section \<open>Webhook\<close>

text \<open>
  What the view function reads of a request: its method, the query arguments
  (\<^verbatim>\<open>request.args.get\<close> gives the first value of a key, or \<^verbatim>\<open>None\<close>) and the body.
  \<^verbatim>\<open>request.get_json()\<close> is called with its default arguments, so it either returns a
  value or raises: on a well-formed JSON body it returns the parsed value (\<open>JNull\<close> for
  the body \<^verbatim>\<open>null\<close>); on a body that is sent as JSON and is not well-formed its
  \<^verbatim>\<open>on_json_loading_failed\<close> raises \<^verbatim>\<open>BadRequest\<close>, which Flask answers with status 400
  when it leaves the view function.
\<close>

datatype request_body = JsonBody json | MalformedJson

record request =
  request_method :: string
  args :: "(string \<times> string) list"
  body :: request_body

fun get_json :: "request_body \<Rightarrow> py_exn + json" where
  "get_json (JsonBody v) = Inr v"
| "get_json MalformedJson = Inl BadRequest"

text \<open>
  The view function returns a pair of a body and a status, the body being a string or
  (the challenge of a request without one) \<^verbatim>\<open>None\<close>; for a method that is neither
  \<^verbatim>\<open>GET\<close> nor \<^verbatim>\<open>POST\<close> it falls off its end and returns \<^verbatim>\<open>None\<close>.
\<close>

datatype view_return = Tuple "string option" int | ReturnsNone

text \<open>
  Lines 83 to 134. Logging is left out: it builds strings only, raises nothing and makes
  no HTTP call.
\<close>

definition webhook :: "config \<Rightarrow> transport \<Rightarrow> request \<Rightarrow> view_return io" where
  "webhook cfg net req =
     (if request_method req = ''GET'' then
        (let mode = map_of (args req) ''hub.mode'';
             token = map_of (args req) ''hub.verify_token'';
             challenge = map_of (args req) ''hub.challenge''
         in if mode = Some ''subscribe'' \<and> token = Some (VERIFY_TOKEN cfg)
            then ret (Tuple challenge 200)
            else ret (Tuple (Some ''Verification failed'') 403))
      else if request_method req = ''POST'' then
        bind (lift (get_json (body req))) (\<lambda>data.
        bind (try_except
               (bind (lift (py_get data ''entry'' (JArr []))) (\<lambda>entry.
                  if truthy entry then
                    bind (lift (bindE (getitem_0 entry) (\<lambda>e. py_get e ''changes'' (JArr [])))) (\<lambda>changes.
                      if truthy changes then
                        bind (lift (bindE (getitem_0 changes) (\<lambda>c. py_get c ''value'' (JObj [])))) (\<lambda>val.
                        bind (lift (py_get val ''messages'' (JArr []))) (\<lambda>messages.
                          if truthy messages then
                            bind (lift (getitem_0 messages)) (\<lambda>message.
                            bind (lift (py_get message ''from'' JNull)) (\<lambda>from_number.
                            bind (lift (py_get message ''type'' JNull)) (\<lambda>message_type.
                              if message_type = JStr ''text'' then
                                bind (lift (bindE (py_get message ''text'' (JObj []))
                                                  (\<lambda>t. py_get t ''body'' (JStr [])))) (\<lambda>user_text.
                                bind (get_deepseek_reply cfg net user_text) (\<lambda>ai_response.
                                bind (send_whatsapp_message cfg net from_number ai_response) (\<lambda>sent.
                                ret ())))
                              else ret ())))
                          else ret ()))
                      else ret ())
                  else ret ()))
               (\<lambda>e. ret ())) (\<lambda>u.
        ret (Tuple (Some ''OK'') 200)))
      else ret ReturnsNone)"

section \<open>Startup check\<close>

text \<open>
  Lines 150 to 167. Here the log is the result that matters, so the function returns what
  it logged, each record with its level, next to its truth value.
  \<open>join\<close> is \<^verbatim>\<open>sep.join(xs)\<close>.
\<close>

datatype log_level = INFO | ERROR

fun join :: "string \<Rightarrow> string list \<Rightarrow> string" where
  "join sep [] = []"
| "join sep [x] = x"
| "join sep (x # y # ys) = x @ sep @ join sep (y # ys)"

definition check_configuration :: "config \<Rightarrow> bool \<times> (log_level \<times> string) list" where
  "check_configuration cfg =
     (let missing_vars = [];
          missing_vars = (if py_not (WHATSAPP_TOKEN cfg)
                          then missing_vars @ [''WHATSAPP_TOKEN''] else missing_vars);
          missing_vars = (if py_not (WHATSAPP_PHONE_ID cfg)
                          then missing_vars @ [''WHATSAPP_PHONE_ID''] else missing_vars);
          missing_vars = (if py_not (DEEPSEEK_API_KEY cfg)
                          then missing_vars @ [''DEEPSEEK_API_KEY''] else missing_vars)
      in if missing_vars \<noteq> [] then
           (False,
            [(ERROR, ''Missing required environment variables: '' @ join '', '' missing_vars),
             (ERROR, ''Please configure your .env file with the required credentials.'')])
         else
           (True, [(INFO, ''All required environment variables are configured!'')]))"

section \<open>The paths of the specification\<close>

text \<open>
  The specification speaks of the message at the fixed path
  \<^verbatim>\<open>entry[0].changes[0].value.messages[0]\<close> of the inbound document and of the first
  choice's message content of a completion. These are its words, written as lookups that
  give \<open>None\<close> as soon as a level is absent: \<open>field\<close> is the member of an object,
  \<open>first_elem\<close> the first element of an array.
\<close>

fun field :: "json \<Rightarrow> string \<Rightarrow> json option" where
  "field (JObj kvs) k = map_of kvs k"
| "field _ k = None"

fun first_elem :: "json \<Rightarrow> json option" where
  "first_elem (JArr (x # xs)) = Some x"
| "first_elem _ = None"

definition message_at_path :: "json \<Rightarrow> json option" where
  "message_at_path data =
     Option.bind (field data ''entry'') (\<lambda>entry.
     Option.bind (first_elem entry) (\<lambda>e.
     Option.bind (field e ''changes'') (\<lambda>changes.
     Option.bind (first_elem changes) (\<lambda>c.
     Option.bind (field c ''value'') (\<lambda>val.
     Option.bind (field val ''messages'') first_elem)))))"

definition first_choice_content :: "json \<Rightarrow> json option" where
  "first_choice_content doc =
     Option.bind (field doc ''choices'') (\<lambda>choices.
     Option.bind (first_elem choices) (\<lambda>choice.
     Option.bind (field choice ''message'') (\<lambda>message.
     field message ''content'')))"

section \<open>Names for parts of the program\<close>

text \<open>
  The two fallback strings of the Completion Client, the expression of line 75 applied to
  the parsed body, and the nested blocks of the \<^verbatim>\<open>try\<close> statement of lines 104 to 129,
  from the innermost (one message) to the whole block. \<open>webhook\<close> above is written in one
  piece, as in the source; \<open>webhook_post\<close> below shows that these are its parts.
  A computation is \<open>quiet\<close> when it makes no HTTP call.
\<close>

definition fallback_trouble :: json where
  "fallback_trouble = JStr ''Sorry, I'm having trouble processing your request right now.''"

definition fallback_error :: json where
  "fallback_error = JStr ''Sorry, I encountered an error while processing your message.''"

definition extract_content :: "json \<Rightarrow> py_exn + json" where
  "extract_content doc =
     bindE (getitem_str doc ''choices'') (\<lambda>choices.
     bindE (getitem_0 choices) (\<lambda>choice.
     bindE (getitem_str choice ''message'') (\<lambda>message.
     getitem_str message ''content'')))"

definition process_message :: "config \<Rightarrow> transport \<Rightarrow> json \<Rightarrow> unit io" where
  "process_message cfg net message =
     bind (lift (py_get message ''from'' JNull)) (\<lambda>from_number.
     bind (lift (py_get message ''type'' JNull)) (\<lambda>message_type.
       if message_type = JStr ''text'' then
         bind (lift (bindE (py_get message ''text'' (JObj []))
                           (\<lambda>t. py_get t ''body'' (JStr [])))) (\<lambda>user_text.
         bind (get_deepseek_reply cfg net user_text) (\<lambda>ai_response.
         bind (send_whatsapp_message cfg net from_number ai_response) (\<lambda>sent.
         ret ())))
       else ret ()))"

definition process_messages :: "config \<Rightarrow> transport \<Rightarrow> json \<Rightarrow> unit io" where
  "process_messages cfg net messages =
     (if truthy messages then bind (lift (getitem_0 messages)) (process_message cfg net)
      else ret ())"

definition process_changes :: "config \<Rightarrow> transport \<Rightarrow> json \<Rightarrow> unit io" where
  "process_changes cfg net changes =
     (if truthy changes then
        bind (lift (bindE (getitem_0 changes) (\<lambda>c. py_get c ''value'' (JObj [])))) (\<lambda>val.
        bind (lift (py_get val ''messages'' (JArr []))) (process_messages cfg net))
      else ret ())"

definition process_data :: "config \<Rightarrow> transport \<Rightarrow> json \<Rightarrow> unit io" where
  "process_data cfg net data =
     bind (lift (py_get data ''entry'' (JArr []))) (\<lambda>entry.
       if truthy entry then
         bind (lift (bindE (getitem_0 entry) (\<lambda>e. py_get e ''changes'' (JArr []))))
              (process_changes cfg net)
       else ret ())"

definition quiet :: "'a io \<Rightarrow> http_call list \<Rightarrow> bool" where
  "quiet m tr = (snd (m tr) = tr)"

section \<open>Concrete inputs\<close>

text \<open>
  A configuration with all credentials and one with none; three networks (one that answers
  every call with status 200 and a given document, one that answers 500, one that cannot
  be reached); the body of a completion with a given content; a webhook delivery carrying
  one message; the text message \<^verbatim>\<open>Hello\<close> from 1555000111, an image message, a text
  message without its \<^verbatim>\<open>text\<close> member, and a delivery that carries statuses and no
  messages; an environment in which \<^verbatim>\<open>WHATSAPP_TOKEN\<close> is set to the empty string, and
  one in which it is the only variable set.
\<close>

definition example_config :: config where
  "example_config =
     \<lparr> WHATSAPP_TOKEN = Some ''EAAG-token'',
       WHATSAPP_PHONE_ID = Some ''106540352242922'',
       DEEPSEEK_API_KEY = Some ''sk-test'',
       VERIFY_TOKEN = ''deepseek-bot'' \<rparr>"

definition no_keys_config :: config where
  "no_keys_config =
     \<lparr> WHATSAPP_TOKEN = None,
       WHATSAPP_PHONE_ID = None,
       DEEPSEEK_API_KEY = None,
       VERIFY_TOKEN = ''deepseek-bot'' \<rparr>"

definition completion_body :: "json \<Rightarrow> json" where
  "completion_body c =
     JObj [(''id'', JStr ''cmpl-1''),
           (''choices'', JArr [JObj [(''index'', JInt 0),
                                     (''message'', JObj [(''role'', JStr ''assistant''),
                                                         (''content'', c)])]])]"

definition answers :: "json \<Rightarrow> transport" where
  "answers doc tr call = Inr \<lparr> status_code = 200, json_result = Inr doc \<rparr>"

definition server_error :: transport where
  "server_error tr call = Inr \<lparr> status_code = 500, json_result = Inl JSONDecodeError \<rparr>"

definition unreachable :: transport where
  "unreachable tr call = Inl RequestException"

definition delivery :: "json \<Rightarrow> json" where
  "delivery message =
     JObj [(''object'', JStr ''whatsapp_business_account''),
           (''entry'', JArr [JObj [(''id'', JStr ''0''),
              (''changes'', JArr [JObj [(''field'', JStr ''messages''),
                 (''value'', JObj [(''messaging_product'', JStr ''whatsapp''),
                                   (''messages'', JArr [message])])]])]])]"

definition hello_message :: json where
  "hello_message =
     JObj [(''from'', JStr ''1555000111''),
           (''type'', JStr ''text''),
           (''text'', JObj [(''body'', JStr ''Hello'')])]"

definition post :: "request_body \<Rightarrow> request" where
  "post b = \<lparr> request_method = ''POST'', args = [], body = b \<rparr>"

definition get :: "(string \<times> string) list \<Rightarrow> request" where
  "get qs = \<lparr> request_method = ''GET'', args = qs, body = MalformedJson \<rparr>"

definition image_message :: json where
  "image_message =
     JObj [(''from'', JStr ''1555000111''),
           (''type'', JStr ''image''),
           (''image'', JObj [(''id'', JStr ''2754859441498128'')])]"

definition status_update :: json where
  "status_update =
     JObj [(''object'', JStr ''whatsapp_business_account''),
           (''entry'', JArr [JObj [(''id'', JStr ''0''),
              (''changes'', JArr [JObj [(''field'', JStr ''messages''),
                 (''value'', JObj [(''messaging_product'', JStr ''whatsapp''),
                                   (''statuses'', JArr [JObj [(''status'', JStr ''delivered'')]])])]])]])]"

definition bare_text_message :: json where
  "bare_text_message = JObj [(''from'', JStr ''1555000111''), (''type'', JStr ''text'')]"

definition env_empty_token :: "string \<Rightarrow> string option" where
  "env_empty_token =
     map_of [(''WHATSAPP_TOKEN'', []),
             (''WHATSAPP_PHONE_ID'', ''106540352242922''),
             (''DEEPSEEK_API_KEY'', ''sk-test'')]"

definition env_only_token :: "string \<Rightarrow> string option" where
  "env_only_token = map_of [(''WHATSAPP_TOKEN'', ''EAAG-token'')]"

section \<open>Basic facts\<close>

lemma bind_ret [simp]: "bind (ret v) f = f v"
  by (rule ext) (simp add: bind_def ret_def)

lemma bind_lift_Inr [simp]: "bind (lift (Inr v)) f = f v"
  by (rule ext) (simp add: bind_def lift_def)

lemma bind_lift_Inl [simp]: "bind (lift (Inl e)) f = lift (Inl e)"
  by (rule ext) (simp add: bind_def lift_def)

lemma bindE_Inr [simp]: "bindE (Inr v) f = f v"
  by (simp add: bindE_def)

lemma bindE_Inl [simp]: "bindE (Inl e) f = Inl e"
  by (simp add: bindE_def)

lemma getitem_str_field:
  "getitem_str x k = (case field x k of Some v \<Rightarrow> Inr v
                      | None \<Rightarrow> Inl (case x of JObj kvs \<Rightarrow> KeyError | _ \<Rightarrow> TypeError))"
  by (cases x) (simp_all split: option.split)

lemma getitem_0_first_elem: "first_elem x = Some v \<Longrightarrow> getitem_0 x = Inr v"
  by (cases x rule: getitem_0.cases) simp_all

lemma getitem_0_no_first_elem:
  "first_elem x = None \<Longrightarrow> (\<exists>e. getitem_0 x = Inl e) \<or> (\<exists>c. getitem_0 x = Inr (JStr [c]))"
  by (cases x rule: getitem_0.cases) simp_all

lemma extract_content_Some:
  "first_choice_content doc = Some c \<Longrightarrow> extract_content doc = Inr c"
  by (auto simp: first_choice_content_def extract_content_def getitem_str_field
        getitem_0_first_elem split: Option.bind_splits)

lemma extract_content_None:
  assumes "first_choice_content doc = None"
  shows "\<exists>e. extract_content doc = Inl e"
proof (cases "field doc ''choices''")
  case None
  then show ?thesis by (simp add: extract_content_def getitem_str_field)
next
  case (Some choices)
  note ch = Some
  show ?thesis
  proof (cases "first_elem choices")
    case None
    with getitem_0_no_first_elem [OF None] ch show ?thesis
      by (auto simp: extract_content_def getitem_str_field)
  next
    case (Some choice)
    with ch assms show ?thesis
      by (auto simp: extract_content_def first_choice_content_def getitem_str_field
            getitem_0_first_elem split: option.splits)
  qed
qed

lemma get_deepseek_reply_unset:
  "py_not (DEEPSEEK_API_KEY cfg) \<Longrightarrow>
   get_deepseek_reply cfg net prompt tr = (Inr (JStr ''DeepSeek API key not configured!''), tr)"
  by (simp add: get_deepseek_reply_def ret_def)

lemma get_deepseek_reply_set:
  "\<not> py_not (DEEPSEEK_API_KEY cfg) \<Longrightarrow>
   get_deepseek_reply cfg net prompt tr =
     (Inr (case net tr (deepseek_call cfg prompt) of
             Inl e \<Rightarrow> fallback_error
           | Inr r \<Rightarrow>
               if status_code r = 200
               then (case bindE (json_result r) extract_content of
                       Inl e \<Rightarrow> fallback_error | Inr c \<Rightarrow> c)
               else fallback_trouble),
      tr @ [deepseek_call cfg prompt])"
proof -
  have fold: "(\<lambda>doc. bindE (getitem_str doc ''choices'') (\<lambda>choices.
                 bindE (getitem_0 choices) (\<lambda>choice.
                 bindE (getitem_str choice ''message'') (\<lambda>message.
                 getitem_str message ''content'')))) = extract_content"
    by (rule ext) (simp add: extract_content_def)
  assume "\<not> py_not (DEEPSEEK_API_KEY cfg)"
  then show ?thesis
    unfolding get_deepseek_reply_def fold
    by (simp add: try_except_def bind_def requests_post_def ret_def lift_def
          fallback_error_def fallback_trouble_def split: sum.split)
qed

lemma get_deepseek_reply_total:
  "\<exists>v tr'. get_deepseek_reply cfg net prompt tr = (Inr v, tr')"
  by (cases "py_not (DEEPSEEK_API_KEY cfg)")
     (simp_all add: get_deepseek_reply_unset get_deepseek_reply_set)

lemma send_whatsapp_message_unset:
  "py_not (WHATSAPP_TOKEN cfg) \<or> py_not (WHATSAPP_PHONE_ID cfg) \<Longrightarrow>
   send_whatsapp_message cfg net to message tr = (Inr False, tr)"
  by (simp add: send_whatsapp_message_def ret_def)

lemma send_whatsapp_message_set:
  "\<not> py_not (WHATSAPP_TOKEN cfg) \<Longrightarrow> \<not> py_not (WHATSAPP_PHONE_ID cfg) \<Longrightarrow>
   send_whatsapp_message cfg net to message tr =
     (Inr (case net tr (whatsapp_call cfg to message) of
             Inl e \<Rightarrow> False | Inr r \<Rightarrow> status_code r = 200),
      tr @ [whatsapp_call cfg to message])"
  by (simp add: send_whatsapp_message_def try_except_def bind_def requests_post_def ret_def
        split: sum.split)

lemma send_whatsapp_message_total:
  "\<exists>sent tr'. send_whatsapp_message cfg net to message tr = (Inr sent, tr')"
proof (cases "py_not (WHATSAPP_TOKEN cfg) \<or> py_not (WHATSAPP_PHONE_ID cfg)")
  case True
  from send_whatsapp_message_unset [OF True] show ?thesis by blast
next
  case False
  then have "\<not> py_not (WHATSAPP_TOKEN cfg)" and "\<not> py_not (WHATSAPP_PHONE_ID cfg)"
    by simp_all
  from send_whatsapp_message_set [OF this] show ?thesis by blast
qed

lemma webhook_post:
  "request_method req = ''POST'' \<Longrightarrow>
   webhook cfg net req =
     bind (lift (get_json (body req))) (\<lambda>data.
     bind (try_except (process_data cfg net data) (\<lambda>e. ret ())) (\<lambda>u.
     ret (Tuple (Some ''OK'') 200)))"
  unfolding webhook_def process_data_def process_changes_def process_messages_def process_message_def
  by simp

lemma quiet_ret [simp]: "quiet (ret v) tr"
  by (simp add: quiet_def ret_def)

lemma quiet_lift [simp]: "quiet (lift r) tr"
  by (simp add: quiet_def lift_def)

lemma py_get_non_obj: "field x k = None \<Longrightarrow> (\<exists>e. py_get x k d = Inl e) \<or> py_get x k d = Inr d"
  by (cases x) simp_all

lemma py_get_JStr [simp]: "py_get (JStr s) k d = Inl AttributeError"
  by simp

lemma process_message_quiet:
  "field message ''type'' \<noteq> Some (JStr ''text'') \<Longrightarrow> quiet (process_message cfg net message) tr"
  by (cases message) (auto simp: process_message_def split: option.splits)

lemma process_messages_Some:
  "first_elem messages = Some m \<Longrightarrow> process_messages cfg net messages = process_message cfg net m"
  by (cases messages rule: getitem_0.cases) (simp_all add: process_messages_def)

lemma process_message_JStr: "quiet (process_message cfg net (JStr s)) tr"
  by (simp add: process_message_def)

lemma process_messages_None:
  "first_elem messages = None \<Longrightarrow> quiet (process_messages cfg net messages) tr"
  by (cases messages rule: getitem_0.cases)
     (simp_all add: process_messages_def process_message_JStr)

lemma py_get_field: "field x k = Some v \<Longrightarrow> py_get x k d = Inr v"
  by (cases x) simp_all

lemma first_py_get_None:
  "first_elem x = None \<Longrightarrow> \<exists>ex. bindE (getitem_0 x) (\<lambda>e. py_get e k d) = Inl ex"
  by (cases x rule: getitem_0.cases) simp_all

lemma first_py_get_Some:
  "first_elem x = Some e \<Longrightarrow> bindE (getitem_0 x) (\<lambda>e. py_get e k d) = py_get e k d"
  by (simp add: getitem_0_first_elem)

lemma first_elem_truthy: "first_elem x = Some e \<Longrightarrow> truthy x"
  by (cases x rule: getitem_0.cases) simp_all

lemma process_messages_absent: "quiet (process_messages cfg net (JArr [])) tr"
  by (simp add: process_messages_def)

lemma process_changes_None:
  assumes "Option.bind (first_elem changes) (\<lambda>c.
           Option.bind (field c ''value'') (\<lambda>val.
           Option.bind (field val ''messages'') first_elem)) = None"
  shows "quiet (process_changes cfg net changes) tr"
proof (cases "first_elem changes")
  case None
  from first_py_get_None [OF None] obtain ex
    where "bindE (getitem_0 changes) (\<lambda>c. py_get c ''value'' (JObj [])) = Inl ex" by blast
  then show ?thesis by (simp add: process_changes_def)
next
  case (Some c)
  note c = Some
  have tr: "truthy changes" by (rule first_elem_truthy [OF c])
  show ?thesis
  proof (cases "field c ''value''")
    case None
    from py_get_non_obj [OF None, of "JObj []"] show ?thesis
      by (auto simp: process_changes_def first_py_get_Some [OF c] tr process_messages_absent)
  next
    case (Some val)
    note val = Some
    have pc: "process_changes cfg net changes =
                bind (lift (py_get val ''messages'' (JArr []))) (process_messages cfg net)"
      by (simp add: process_changes_def first_py_get_Some [OF c] tr py_get_field [OF val])
    show ?thesis
    proof (cases "field val ''messages''")
      case None
      from py_get_non_obj [OF None, of "JArr []"] show ?thesis
        by (auto simp: pc process_messages_absent)
    next
      case (Some messages)
      with assms c val have "first_elem messages = None" by simp
      then show ?thesis
        by (simp add: pc py_get_field [OF Some] process_messages_None)
    qed
  qed
qed

lemma process_changes_Some:
  assumes "first_elem changes = Some c" and "field c ''value'' = Some val"
    and "field val ''messages'' = Some messages" and "first_elem messages = Some m"
  shows "process_changes cfg net changes = process_message cfg net m"
  using assms
  by (simp add: process_changes_def first_py_get_Some first_elem_truthy py_get_field
        process_messages_Some)

lemma process_data_None:
  assumes "message_at_path data = None"
  shows "quiet (process_data cfg net data) tr"
proof (cases "field data ''entry''")
  case None
  from py_get_non_obj [OF None, of "JArr []"] show ?thesis
    by (auto simp: process_data_def)
next
  case (Some entry)
  note entry = Some
  have pd: "process_data cfg net data =
              (if truthy entry then
                 bind (lift (bindE (getitem_0 entry) (\<lambda>e. py_get e ''changes'' (JArr []))))
                      (process_changes cfg net)
               else ret ())"
    by (simp add: process_data_def py_get_field [OF entry])
  show ?thesis
  proof (cases "first_elem entry")
    case None
    from first_py_get_None [OF None] obtain ex
      where "bindE (getitem_0 entry) (\<lambda>e. py_get e ''changes'' (JArr [])) = Inl ex" by blast
    then show ?thesis by (simp add: pd)
  next
    case (Some e)
    note e = Some
    have pd': "process_data cfg net data =
                 bind (lift (py_get e ''changes'' (JArr []))) (process_changes cfg net)"
      by (simp add: pd first_elem_truthy [OF e] first_py_get_Some [OF e])
    show ?thesis
    proof (cases "field e ''changes''")
      case None
      have "quiet (process_changes cfg net (JArr [])) tr"
        by (simp add: process_changes_def)
      with py_get_non_obj [OF None, of "JArr []"] show ?thesis
        by (auto simp: pd')
    next
      case (Some changes)
      with assms entry e
      have "Option.bind (first_elem changes) (\<lambda>c.
            Option.bind (field c ''value'') (\<lambda>val.
            Option.bind (field val ''messages'') first_elem)) = None"
        by (simp add: message_at_path_def)
      then show ?thesis
        by (simp add: pd' py_get_field [OF Some] process_changes_None)
    qed
  qed
qed

lemma process_data_Some:
  assumes "message_at_path data = Some m"
  shows "process_data cfg net data = process_message cfg net m"
proof -
  from assms obtain entry e changes c val messages where
    "field data ''entry'' = Some entry" "first_elem entry = Some e"
    "field e ''changes'' = Some changes" "first_elem changes = Some c"
    "field c ''value'' = Some val" "field val ''messages'' = Some messages"
    "first_elem messages = Some m"
    by (auto simp: message_at_path_def split: Option.bind_splits)
  then show ?thesis
    by (simp add: process_data_def py_get_field first_elem_truthy first_py_get_Some
          process_changes_Some)
qed

lemma message_at_path_delivery: "message_at_path (delivery m) = Some m"
  by (simp add: message_at_path_def delivery_def)

lemma first_choice_content_completion_body: "first_choice_content (completion_body c) = Some c"
  by (simp add: first_choice_content_def completion_body_def)

lemma try_except_unit: "try_except m (\<lambda>e. ret ()) tr = (Inr (), snd (m tr))"
  by (cases "m tr"; cases "fst (m tr)") (auto simp: try_except_def ret_def)

lemma webhook_post_json:
  assumes "request_method req = ''POST''" and "body req = JsonBody data"
  shows "webhook cfg net req tr =
           (Inr (Tuple (Some ''OK'') 200), snd (process_data cfg net data tr))"
  using assms
  by (simp add: webhook_post) (simp add: bind_def try_except_unit ret_def)

lemma webhook_post_malformed:
  assumes "request_method req = ''POST''" and "body req = MalformedJson"
  shows "webhook cfg net req tr = (Inl BadRequest, tr)"
  using assms by (simp add: webhook_post lift_def)

lemma process_message_text:
  assumes "map_of m ''type'' = Some (JStr ''text'')"
    and "bindE (py_get (JObj m) ''text'' (JObj [])) (\<lambda>t. py_get t ''body'' (JStr [])) = Inr user_text"
    and "get_deepseek_reply cfg net user_text tr = (Inr ai, tr1)"
    and "send_whatsapp_message cfg net (case map_of m ''from'' of Some v \<Rightarrow> v | None \<Rightarrow> JNull) ai tr1
           = (Inr sent, tr2)"
  shows "process_message cfg net (JObj m) tr = (Inr (), tr2)"
  using assms by (simp add: process_message_def) (simp add: bind_def ret_def)

lemma get_deepseek_reply_cases:
  assumes "get_deepseek_reply cfg net prompt tr = (Inr v, tr')"
  shows "v = JStr ''DeepSeek API key not configured!'' \<or> v = fallback_trouble \<or> v = fallback_error
         \<or> (\<exists>r doc. \<not> py_not (DEEPSEEK_API_KEY cfg)
               \<and> net tr (deepseek_call cfg prompt) = Inr r \<and> status_code r = 200
               \<and> json_result r = Inr doc \<and> first_choice_content doc = Some v)"
proof (cases "py_not (DEEPSEEK_API_KEY cfg)")
  case True
  with assms show ?thesis by (simp add: get_deepseek_reply_unset)
next
  case False
  note key = False
  show ?thesis
  proof (cases "net tr (deepseek_call cfg prompt)")
    case (Inl e)
    with assms key show ?thesis by (simp add: get_deepseek_reply_set)
  next
    case (Inr r)
    note r = Inr
    show ?thesis
    proof (cases "status_code r = 200")
      case False
      with assms key r show ?thesis by (simp add: get_deepseek_reply_set)
    next
      case True
      note ok = True
      show ?thesis
      proof (cases "json_result r")
        case (Inl e)
        with assms key r ok show ?thesis by (simp add: get_deepseek_reply_set)
      next
        case (Inr doc)
        note doc = Inr
        show ?thesis
        proof (cases "first_choice_content doc")
          case None
          from extract_content_None [OF None] obtain e where "extract_content doc = Inl e" ..
          with assms key r ok doc show ?thesis by (simp add: get_deepseek_reply_set)
        next
          case (Some c)
          from extract_content_Some [OF Some] assms key r ok doc have "v = c"
            by (simp add: get_deepseek_reply_set)
          with key r ok doc Some show ?thesis by simp
        qed
      qed
    qed
  qed
qed

lemma reply_flow:
  assumes "message_at_path data = Some (JObj m)"
    and "map_of m ''type'' = Some (JStr ''text'')"
    and "bindE (py_get (JObj m) ''text'' (JObj [])) (\<lambda>t. py_get t ''body'' (JStr [])) = Inr user_text"
    and "request_method req = ''POST''" and "body req = JsonBody data"
  shows "\<exists>ai tr1 sent tr2.
           get_deepseek_reply cfg net user_text tr = (Inr ai, tr1) \<and>
           send_whatsapp_message cfg net (case map_of m ''from'' of Some v \<Rightarrow> v | None \<Rightarrow> JNull) ai tr1
             = (Inr sent, tr2) \<and>
           webhook cfg net req tr = (Inr (Tuple (Some ''OK'') 200), tr2)"
proof -
  obtain ai tr1 where r: "get_deepseek_reply cfg net user_text tr = (Inr ai, tr1)"
    using get_deepseek_reply_total by blast
  obtain sent tr2 where
    s: "send_whatsapp_message cfg net (case map_of m ''from'' of Some v \<Rightarrow> v | None \<Rightarrow> JNull) ai tr1
          = (Inr sent, tr2)"
    using send_whatsapp_message_total by blast
  have "process_data cfg net data tr = (Inr (), tr2)"
    by (simp add: process_data_Some [OF assms(1)] process_message_text [OF assms(2,3) r s])
  then have "webhook cfg net req tr = (Inr (Tuple (Some ''OK'') 200), tr2)"
    by (simp add: webhook_post_json [OF assms(4,5)])
  with r s show ?thesis by blast
qed

section \<open>Webhook Verifier\<close>

text \<open>
  Claim C2. For every \<^verbatim>\<open>GET\<close> request to the webhook, with whatever query arguments: if
  \<^verbatim>\<open>hub.mode\<close> is the literal \<^verbatim>\<open>subscribe\<close> and \<^verbatim>\<open>hub.verify_token\<close> is the configured
  verify token, the view returns the value of \<^verbatim>\<open>hub.challenge\<close> with status 200; in every
  other case (a different or absent mode, a different or absent token) it returns
  \<^verbatim>\<open>Verification failed\<close> with status 403. No HTTP call is made.
\<close>

theorem webhook_verification:
  assumes "request_method req = ''GET''"
  shows "webhook cfg net req tr =
           (if map_of (args req) ''hub.mode'' = Some ''subscribe''
               \<and> map_of (args req) ''hub.verify_token'' = Some (VERIFY_TOKEN cfg)
            then (Inr (Tuple (map_of (args req) ''hub.challenge'') 200), tr)
            else (Inr (Tuple (Some ''Verification failed'') 403), tr))"
  using assms by (simp add: webhook_def ret_def Let_def)

theorem webhook_verification_witness:
  "request_method (get [(''hub.mode'', ''subscribe''), (''hub.verify_token'', ''deepseek-bot''),
                (''hub.challenge'', ''1158201444'')]) = ''GET'' \<and>
   webhook example_config unreachable
     (get [(''hub.mode'', ''subscribe''), (''hub.verify_token'', ''deepseek-bot''),
           (''hub.challenge'', ''1158201444'')]) []
     = (Inr (Tuple (Some ''1158201444'') 200), []) \<and>
   webhook example_config unreachable
     (get [(''hub.mode'', ''subscribe''), (''hub.verify_token'', ''guess''),
           (''hub.challenge'', ''1158201444'')]) []
     = (Inr (Tuple (Some ''Verification failed'') 403), [])"
proof -
  let ?good = "get [(''hub.mode'', ''subscribe''), (''hub.verify_token'', ''deepseek-bot''),
                    (''hub.challenge'', ''1158201444'')]"
  let ?bad = "get [(''hub.mode'', ''subscribe''), (''hub.verify_token'', ''guess''),
                   (''hub.challenge'', ''1158201444'')]"
  have g: "request_method ?good = ''GET''" and b: "request_method ?bad = ''GET''"
    by (simp_all add: get_def)
  from g webhook_verification [OF g, of example_config unreachable "[]"]
    webhook_verification [OF b, of example_config unreachable "[]"]
  show ?thesis by (simp add: get_def example_config_def)
qed

section \<open>Completion Client: the missing key\<close>

text \<open>
  Claim C7. For every prompt, if the completion API key is absent from the configuration
  (\<^verbatim>\<open>os.getenv\<close> gave \<^verbatim>\<open>None\<close>, or the empty string, which \<^verbatim>\<open>not\<close> treats alike), the
  Completion Client returns the fixed string \<^verbatim>\<open>DeepSeek API key not configured!\<close> and
  makes no network call: the list of calls is returned as it was.
\<close>

theorem completion_client_without_key:
  "py_not (DEEPSEEK_API_KEY cfg) \<Longrightarrow>
   get_deepseek_reply cfg net prompt tr = (Inr (JStr ''DeepSeek API key not configured!''), tr)"
  by (rule get_deepseek_reply_unset)

theorem completion_client_without_key_witness:
  "py_not (DEEPSEEK_API_KEY no_keys_config) \<and>
   get_deepseek_reply no_keys_config (answers (completion_body (JStr ''Hi''))) (JStr ''Hello'') []
     = (Inr (JStr ''DeepSeek API key not configured!''), [])"
proof -
  have h: "py_not (DEEPSEEK_API_KEY no_keys_config)" by (simp add: no_keys_config_def)
  from h completion_client_without_key [OF h] show ?thesis by simp
qed

section \<open>Outbound Sender: its result\<close>

text \<open>
  Claim C5. For every recipient and message text: if \<^verbatim>\<open>WHATSAPP_TOKEN\<close> or
  \<^verbatim>\<open>WHATSAPP_PHONE_ID\<close> is absent (\<^verbatim>\<open>None\<close> or empty), the Outbound Sender returns
  \<^verbatim>\<open>False\<close> and makes no network call; when both are configured it makes exactly one call,
  the send \<^verbatim>\<open>POST\<close>, and returns \<^verbatim>\<open>True\<close> if and only if that call gives a response
  with status 200: any other status and any exception of the transport give \<^verbatim>\<open>False\<close>.
  It never raises.
\<close>

theorem outbound_sender_result:
  "(py_not (WHATSAPP_TOKEN cfg) \<or> py_not (WHATSAPP_PHONE_ID cfg) \<longrightarrow>
      send_whatsapp_message cfg net to message tr = (Inr False, tr)) \<and>
   (\<not> py_not (WHATSAPP_TOKEN cfg) \<and> \<not> py_not (WHATSAPP_PHONE_ID cfg) \<longrightarrow>
      send_whatsapp_message cfg net to message tr =
        (Inr (case net tr (whatsapp_call cfg to message) of
                Inl e \<Rightarrow> False | Inr r \<Rightarrow> status_code r = 200),
         tr @ [whatsapp_call cfg to message]))"
  using send_whatsapp_message_unset [of cfg net to message tr]
    send_whatsapp_message_set [of cfg net to message tr]
  by blast

theorem outbound_sender_result_witness:
  "send_whatsapp_message example_config (answers JNull) (JStr ''1555000111'') (JStr ''Hi'') []
     = (Inr True, [whatsapp_call example_config (JStr ''1555000111'') (JStr ''Hi'')]) \<and>
   send_whatsapp_message example_config server_error (JStr ''1555000111'') (JStr ''Hi'') []
     = (Inr False, [whatsapp_call example_config (JStr ''1555000111'') (JStr ''Hi'')]) \<and>
   send_whatsapp_message example_config unreachable (JStr ''1555000111'') (JStr ''Hi'') []
     = (Inr False, [whatsapp_call example_config (JStr ''1555000111'') (JStr ''Hi'')]) \<and>
   send_whatsapp_message no_keys_config (answers JNull) (JStr ''1555000111'') (JStr ''Hi'') []
     = (Inr False, [])"
proof -
  have set: "\<not> py_not (WHATSAPP_TOKEN example_config)"
            "\<not> py_not (WHATSAPP_PHONE_ID example_config)"
    by (simp_all add: example_config_def)
  have unset: "py_not (WHATSAPP_TOKEN no_keys_config)"
    by (simp add: no_keys_config_def)
  from set unset
    outbound_sender_result [of example_config "answers JNull" "JStr ''1555000111''" "JStr ''Hi''" "[]"]
    outbound_sender_result [of example_config server_error "JStr ''1555000111''" "JStr ''Hi''" "[]"]
    outbound_sender_result [of example_config unreachable "JStr ''1555000111''" "JStr ''Hi''" "[]"]
    outbound_sender_result [of no_keys_config "answers JNull" "JStr ''1555000111''" "JStr ''Hi''" "[]"]
  show ?thesis
    by (simp add: answers_def server_error_def unreachable_def)
qed

section \<open>Completion Client: its outcomes\<close>

text \<open>
  Claim C3. For every prompt, when the API key is configured, the Completion Client makes
  one call, the completion \<^verbatim>\<open>POST\<close>, and: if the endpoint responds with status 200 and
  the body has a first choice's message content, it returns that content; on any other
  status it returns the fixed string
  \<^verbatim>\<open>Sorry, I'm having trouble processing your request right now.\<close>; on any exception of
  the transport it returns the fixed string
  \<^verbatim>\<open>Sorry, I encountered an error while processing your message.\<close>; and whatever happens
  it returns a value, never an exception, to its caller.
\<close>

theorem completion_client_outcomes:
  assumes "\<not> py_not (DEEPSEEK_API_KEY cfg)"
  shows "(\<forall>r doc c. net tr (deepseek_call cfg prompt) = Inr r \<and> status_code r = 200
            \<and> json_result r = Inr doc \<and> first_choice_content doc = Some c \<longrightarrow>
            get_deepseek_reply cfg net prompt tr = (Inr c, tr @ [deepseek_call cfg prompt])) \<and>
         (\<forall>r. net tr (deepseek_call cfg prompt) = Inr r \<and> status_code r \<noteq> 200 \<longrightarrow>
            get_deepseek_reply cfg net prompt tr =
              (Inr (JStr ''Sorry, I'm having trouble processing your request right now.''),
               tr @ [deepseek_call cfg prompt])) \<and>
         (\<forall>e. net tr (deepseek_call cfg prompt) = Inl e \<longrightarrow>
            get_deepseek_reply cfg net prompt tr =
              (Inr (JStr ''Sorry, I encountered an error while processing your message.''),
               tr @ [deepseek_call cfg prompt])) \<and>
         (\<exists>v tr'. get_deepseek_reply cfg net prompt tr = (Inr v, tr'))"
  using assms get_deepseek_reply_total [of cfg net prompt tr]
  by (auto simp: get_deepseek_reply_set extract_content_Some fallback_trouble_def
        fallback_error_def)

theorem completion_client_outcomes_witness:
  "get_deepseek_reply example_config (answers (completion_body (JStr ''Hi there''))) (JStr ''Hello'') []
     = (Inr (JStr ''Hi there''), [deepseek_call example_config (JStr ''Hello'')]) \<and>
   get_deepseek_reply example_config server_error (JStr ''Hello'') []
     = (Inr (JStr ''Sorry, I'm having trouble processing your request right now.''),
        [deepseek_call example_config (JStr ''Hello'')]) \<and>
   get_deepseek_reply example_config unreachable (JStr ''Hello'') []
     = (Inr (JStr ''Sorry, I encountered an error while processing your message.''),
        [deepseek_call example_config (JStr ''Hello'')])"
proof -
  have key: "\<not> py_not (DEEPSEEK_API_KEY example_config)"
    by (simp add: example_config_def)
  from completion_client_outcomes [OF key, of "answers (completion_body (JStr ''Hi there''))" "[]" "JStr ''Hello''"]
    completion_client_outcomes [OF key, of server_error "[]" "JStr ''Hello''"]
    completion_client_outcomes [OF key, of unreachable "[]" "JStr ''Hello''"]
  show ?thesis
    by (simp add: answers_def server_error_def unreachable_def
          first_choice_content_completion_body)
qed

text \<open>
  Claim C9, as amended. The Completion Client is total over upstream responses: for every
  configuration, prompt and outcome of the network it returns a value and never raises;
  when a response with status 200 has a body that is not JSON or lacks the
  \<^verbatim>\<open>choices[0].message.content\<close> structure, the failure is caught and the string
  \<^verbatim>\<open>Sorry, I encountered an error while processing your message.\<close> is returned. The
  value returned is a string in every case but one: on a status 200 whose body has the
  structure, it is the content found there, whatever its type.
\<close>

theorem completion_client_total:
  "(\<exists>v tr'. get_deepseek_reply cfg net prompt tr = (Inr v, tr')) \<and>
   (\<forall>r. \<not> py_not (DEEPSEEK_API_KEY cfg) \<and> net tr (deepseek_call cfg prompt) = Inr r
         \<and> status_code r = 200
         \<and> (\<forall>doc. json_result r = Inr doc \<longrightarrow> first_choice_content doc = None) \<longrightarrow>
      get_deepseek_reply cfg net prompt tr =
        (Inr (JStr ''Sorry, I encountered an error while processing your message.''),
         tr @ [deepseek_call cfg prompt])) \<and>
   (\<forall>v tr'. get_deepseek_reply cfg net prompt tr = (Inr v, tr') \<longrightarrow>
      (\<exists>s. v = JStr s) \<or>
      (\<exists>r doc. \<not> py_not (DEEPSEEK_API_KEY cfg) \<and> net tr (deepseek_call cfg prompt) = Inr r
         \<and> status_code r = 200 \<and> json_result r = Inr doc \<and> first_choice_content doc = Some v))"
proof (intro conjI allI impI)
  show "\<exists>v tr'. get_deepseek_reply cfg net prompt tr = (Inr v, tr')"
    by (rule get_deepseek_reply_total)
next
  fix r
  assume a: "\<not> py_not (DEEPSEEK_API_KEY cfg) \<and> net tr (deepseek_call cfg prompt) = Inr r
         \<and> status_code r = 200
         \<and> (\<forall>doc. json_result r = Inr doc \<longrightarrow> first_choice_content doc = None)"
  have "\<exists>e. bindE (json_result r) extract_content = Inl e"
  proof (cases "json_result r")
    case (Inl e)
    then show ?thesis by simp
  next
    case (Inr doc)
    with a have "first_choice_content doc = None" by simp
    from extract_content_None [OF this] Inr show ?thesis by simp
  qed
  then obtain e where "bindE (json_result r) extract_content = Inl e" ..
  with a show "get_deepseek_reply cfg net prompt tr =
        (Inr (JStr ''Sorry, I encountered an error while processing your message.''),
         tr @ [deepseek_call cfg prompt])"
    by (simp add: get_deepseek_reply_set fallback_error_def)
next
  fix v tr'
  assume "get_deepseek_reply cfg net prompt tr = (Inr v, tr')"
  from get_deepseek_reply_cases [OF this]
  show "(\<exists>s. v = JStr s) \<or>
      (\<exists>r doc. \<not> py_not (DEEPSEEK_API_KEY cfg) \<and> net tr (deepseek_call cfg prompt) = Inr r
         \<and> status_code r = 200 \<and> json_result r = Inr doc \<and> first_choice_content doc = Some v)"
    by (auto simp: fallback_trouble_def fallback_error_def)
qed

theorem completion_client_total_witness:
  "get_deepseek_reply example_config (answers (JObj [(''error'', JStr ''overloaded'')]))
     (JStr ''Hello'') []
     = (Inr (JStr ''Sorry, I encountered an error while processing your message.''),
        [deepseek_call example_config (JStr ''Hello'')])"
proof -
  have key: "\<not> py_not (DEEPSEEK_API_KEY example_config)"
    by (simp add: example_config_def)
  have none: "first_choice_content (JObj [(''error'', JStr ''overloaded'')]) = None"
    by (simp add: first_choice_content_def)
  from key none
    completion_client_total [of example_config "answers (JObj [(''error'', JStr ''overloaded'')])"
      "JStr ''Hello''" "[]"]
  show ?thesis
    by (simp add: answers_def)
qed

text \<open>
  The claim as stated promises a string. When the endpoint answers 200 with
  \<^verbatim>\<open>{"choices": [{"message": {"role": "assistant", "content": null}}]}\<close> the
  Completion Client returns \<^verbatim>\<open>None\<close>.
\<close>

theorem completion_client_returns_none:
  "get_deepseek_reply example_config (answers (completion_body JNull)) (JStr ''Hello'') []
     = (Inr JNull, [deepseek_call example_config (JStr ''Hello'')])"
proof -
  have key: "\<not> py_not (DEEPSEEK_API_KEY example_config)"
    by (simp add: example_config_def)
  have "extract_content (completion_body JNull) = Inr JNull"
    by (rule extract_content_Some) (rule first_choice_content_completion_body)
  then show ?thesis
    by (simp add: get_deepseek_reply_set [OF key] answers_def)
qed

section \<open>Inbound Message Handler\<close>

text \<open>
  Claim C1, as amended. For every inbound \<^verbatim>\<open>POST\<close> to the webhook whose body
  \<^verbatim>\<open>request.get_json()\<close> parses, whatever JSON value it is (also \<^verbatim>\<open>null\<close>, a number, a
  list, or an object whose shape makes the extraction raise) and whatever the two outbound
  calls do, the view returns the body \<^verbatim>\<open>OK\<close> with status 200.
\<close>

theorem webhook_post_acknowledges:
  assumes "request_method req = ''POST''" and "body req = JsonBody data"
  shows "fst (webhook cfg net req tr) = Inr (Tuple (Some ''OK'') 200)"
  by (simp add: webhook_post_json [OF assms])

theorem webhook_post_acknowledges_witness:
  "fst (webhook example_config unreachable (post (JsonBody JNull)) [])
     = Inr (Tuple (Some ''OK'') 200) \<and>
   fst (webhook example_config unreachable (post (JsonBody (JObj [(''entry'', JStr ''x'')]))) [])
     = Inr (Tuple (Some ''OK'') 200) \<and>
   fst (webhook example_config server_error (post (JsonBody (delivery hello_message))) [])
     = Inr (Tuple (Some ''OK'') 200)"
proof -
  have p: "request_method (post b) = ''POST''" "body (post b) = b" for b
    by (simp_all add: post_def)
  from webhook_post_acknowledges [where req = "post (JsonBody JNull)" and data = JNull
      and cfg = example_config and net = unreachable and tr = "[]", OF p]
    webhook_post_acknowledges [where req = "post (JsonBody (JObj [(''entry'', JStr ''x'')]))"
      and data = "JObj [(''entry'', JStr ''x'')]"
      and cfg = example_config and net = unreachable and tr = "[]", OF p]
    webhook_post_acknowledges [where req = "post (JsonBody (delivery hello_message))"
      and data = "delivery hello_message"
      and cfg = example_config and net = server_error and tr = "[]", OF p]
  show ?thesis by simp
qed

text \<open>
  The claim as stated covers bodies that are not well-formed JSON. The call of
  \<^verbatim>\<open>request.get_json()\<close> on line 101 stands before the \<^verbatim>\<open>try\<close> of line 104: on such a
  body it raises \<^verbatim>\<open>BadRequest\<close>, the exception leaves the view function, and the
  response is not 200 with \<^verbatim>\<open>OK\<close> (Flask answers it with status 400).
\<close>

theorem webhook_post_malformed_body:
  "webhook example_config unreachable (post MalformedJson) [] = (Inl BadRequest, []) \<and>
   fst (webhook example_config unreachable (post MalformedJson) [])
     \<noteq> Inr (Tuple (Some ''OK'') 200)"
proof -
  have "webhook example_config unreachable (post MalformedJson) [] = (Inl BadRequest, [])"
    by (rule webhook_post_malformed) (simp_all add: post_def)
  then show ?thesis by simp
qed

text \<open>
  Claim C6. For every inbound \<^verbatim>\<open>POST\<close> whose parsed body has no message at the fixed
  path \<^verbatim>\<open>entry[0].changes[0].value.messages[0]\<close> (some level of the path is absent, empty
  or of another type), or whose first message has a type other than \<^verbatim>\<open>text\<close> (or none
  at all), the handler makes no outbound HTTP call, neither to the completion endpoint nor
  to the send endpoint, and returns \<^verbatim>\<open>OK\<close> with status 200.
\<close>

theorem webhook_without_text_message:
  assumes "request_method req = ''POST''" and "body req = JsonBody data"
    and "message_at_path data = None \<or>
         (\<exists>m. message_at_path data = Some m \<and> field m ''type'' \<noteq> Some (JStr ''text''))"
  shows "webhook cfg net req tr = (Inr (Tuple (Some ''OK'') 200), tr)"
proof -
  have "quiet (process_data cfg net data) tr"
    using assms(3)
  proof
    assume "message_at_path data = None"
    then show ?thesis by (rule process_data_None)
  next
    assume "\<exists>m. message_at_path data = Some m \<and> field m ''type'' \<noteq> Some (JStr ''text'')"
    then obtain m where m: "message_at_path data = Some m"
      and t: "field m ''type'' \<noteq> Some (JStr ''text'')" by blast
    from process_message_quiet [OF t] show ?thesis
      by (simp add: process_data_Some [OF m])
  qed
  then show ?thesis
    by (simp add: webhook_post_json [OF assms(1,2)] quiet_def)
qed

theorem webhook_without_text_message_witness:
  "webhook example_config (answers (completion_body (JStr ''Hi''))) (post (JsonBody status_update)) []
     = (Inr (Tuple (Some ''OK'') 200), []) \<and>
   webhook example_config (answers (completion_body (JStr ''Hi'')))
     (post (JsonBody (delivery image_message))) []
     = (Inr (Tuple (Some ''OK'') 200), [])"
proof -
  have p: "request_method (post b) = ''POST''" "body (post b) = b" for b
    by (simp_all add: post_def)
  have a: "message_at_path status_update = None \<or>
         (\<exists>m. message_at_path status_update = Some m \<and> field m ''type'' \<noteq> Some (JStr ''text''))"
    by (simp add: message_at_path_def status_update_def)
  have b: "message_at_path (delivery image_message) = None \<or>
         (\<exists>m. message_at_path (delivery image_message) = Some m
              \<and> field m ''type'' \<noteq> Some (JStr ''text''))"
    by (simp add: message_at_path_delivery image_message_def)
  from webhook_without_text_message [where req = "post (JsonBody status_update)"
      and data = status_update and cfg = example_config
      and net = "answers (completion_body (JStr ''Hi''))" and tr = "[]", OF p a]
    webhook_without_text_message [where req = "post (JsonBody (delivery image_message))"
      and data = "delivery image_message" and cfg = example_config
      and net = "answers (completion_body (JStr ''Hi''))" and tr = "[]", OF p b]
  show ?thesis by simp
qed

text \<open>
  Claim C4, as amended. For an inbound \<^verbatim>\<open>POST\<close> whose first message is a text message
  with body \<^verbatim>\<open>Hello\<close> from sender \<^verbatim>\<open>1555000111\<close>, the handler invokes the Completion
  Client with prompt \<^verbatim>\<open>Hello\<close> and then, whatever the outcome of the completion call,
  invokes the Outbound Sender with recipient \<^verbatim>\<open>1555000111\<close> and the Completion Client's
  result as the body, and returns \<^verbatim>\<open>OK\<close> with status 200. With the key configured the
  completion \<^verbatim>\<open>POST\<close> carries the prompt; with the credentials configured the send
  \<^verbatim>\<open>POST\<close> follows and carries recipient and body. The body is a non-empty string
  whenever the completion call did not give a status 200 with a first choice's message
  content; when it did, the body is that content.
\<close>

theorem webhook_hello:
  assumes "request_method req = ''POST''" and "body req = JsonBody data"
    and "message_at_path data = Some (JObj m)"
    and "map_of m ''from'' = Some (JStr ''1555000111'')"
    and "map_of m ''type'' = Some (JStr ''text'')"
    and "map_of m ''text'' = Some (JObj t)"
    and "map_of t ''body'' = Some (JStr ''Hello'')"
  shows "\<exists>ai tr1 sent tr2.
           get_deepseek_reply cfg net (JStr ''Hello'') tr = (Inr ai, tr1) \<and>
           send_whatsapp_message cfg net (JStr ''1555000111'') ai tr1 = (Inr sent, tr2) \<and>
           webhook cfg net req tr = (Inr (Tuple (Some ''OK'') 200), tr2) \<and>
           (\<not> py_not (DEEPSEEK_API_KEY cfg) \<longrightarrow>
              tr1 = tr @ [deepseek_call cfg (JStr ''Hello'')]) \<and>
           (\<not> py_not (WHATSAPP_TOKEN cfg) \<and> \<not> py_not (WHATSAPP_PHONE_ID cfg) \<longrightarrow>
              tr2 = tr1 @ [whatsapp_call cfg (JStr ''1555000111'') ai]) \<and>
           ((\<exists>s. ai = JStr s \<and> s \<noteq> []) \<or>
            (\<exists>r doc. \<not> py_not (DEEPSEEK_API_KEY cfg)
               \<and> net tr (deepseek_call cfg (JStr ''Hello'')) = Inr r \<and> status_code r = 200
               \<and> json_result r = Inr doc \<and> first_choice_content doc = Some ai))"
proof -
  have ut: "bindE (py_get (JObj m) ''text'' (JObj [])) (\<lambda>t. py_get t ''body'' (JStr []))
              = Inr (JStr ''Hello'')"
    using assms(6,7) by simp
  from reply_flow [OF assms(3) assms(5) ut assms(1,2), of cfg net tr] assms(4)
  obtain ai tr1 sent tr2 where
    r: "get_deepseek_reply cfg net (JStr ''Hello'') tr = (Inr ai, tr1)" and
    s: "send_whatsapp_message cfg net (JStr ''1555000111'') ai tr1 = (Inr sent, tr2)" and
    w: "webhook cfg net req tr = (Inr (Tuple (Some ''OK'') 200), tr2)"
    by auto
  have c1: "\<not> py_not (DEEPSEEK_API_KEY cfg) \<longrightarrow> tr1 = tr @ [deepseek_call cfg (JStr ''Hello'')]"
    using r by (auto simp: get_deepseek_reply_set)
  have c2: "\<not> py_not (WHATSAPP_TOKEN cfg) \<and> \<not> py_not (WHATSAPP_PHONE_ID cfg) \<longrightarrow>
              tr2 = tr1 @ [whatsapp_call cfg (JStr ''1555000111'') ai]"
    using s by (auto simp: send_whatsapp_message_set)
  have c3: "(\<exists>s. ai = JStr s \<and> s \<noteq> []) \<or>
            (\<exists>r doc. \<not> py_not (DEEPSEEK_API_KEY cfg)
               \<and> net tr (deepseek_call cfg (JStr ''Hello'')) = Inr r \<and> status_code r = 200
               \<and> json_result r = Inr doc \<and> first_choice_content doc = Some ai)"
    using get_deepseek_reply_cases [OF r]
    by (auto simp: fallback_trouble_def fallback_error_def)
  from r s w c1 c2 c3 show ?thesis by blast
qed

theorem webhook_hello_witness:
  "webhook example_config server_error (post (JsonBody (delivery hello_message))) []
     = (Inr (Tuple (Some ''OK'') 200),
        [deepseek_call example_config (JStr ''Hello''),
         whatsapp_call example_config (JStr ''1555000111'')
           (JStr ''Sorry, I'm having trouble processing your request right now.'')])"
proof -
  have p: "request_method (post b) = ''POST''" "body (post b) = b" for b
    by (simp_all add: post_def)
  have m: "message_at_path (delivery hello_message) =
             Some (JObj [(''from'', JStr ''1555000111''), (''type'', JStr ''text''),
                         (''text'', JObj [(''body'', JStr ''Hello'')])])"
    by (simp add: message_at_path_delivery hello_message_def)
  have key: "\<not> py_not (DEEPSEEK_API_KEY example_config)"
    "\<not> py_not (WHATSAPP_TOKEN example_config)" "\<not> py_not (WHATSAPP_PHONE_ID example_config)"
    by (simp_all add: example_config_def)
  have "get_deepseek_reply example_config server_error (JStr ''Hello'') []
          = (Inr (JStr ''Sorry, I'm having trouble processing your request right now.''),
             [deepseek_call example_config (JStr ''Hello'')])"
    by (simp add: get_deepseek_reply_set [OF key(1)] server_error_def fallback_trouble_def)
  with webhook_hello [where req = "post (JsonBody (delivery hello_message))"
      and data = "delivery hello_message"
      and m = "[(''from'', JStr ''1555000111''), (''type'', JStr ''text''),
                (''text'', JObj [(''body'', JStr ''Hello'')])]"
      and t = "[(''body'', JStr ''Hello'')]" and cfg = example_config
      and net = server_error and tr = "[]", OF p m] key
  show ?thesis by auto
qed

text \<open>
  The claim as stated promises a non-empty body whatever the outcome of the completion
  call. When the completion endpoint answers 200 with the content \<^verbatim>\<open>""\<close>, the send
  \<^verbatim>\<open>POST\<close> goes out with the empty string as its body.
\<close>

theorem webhook_hello_empty_reply:
  "webhook example_config (answers (completion_body (JStr []))) (post (JsonBody (delivery hello_message))) []
     = (Inr (Tuple (Some ''OK'') 200),
        [deepseek_call example_config (JStr ''Hello''),
         whatsapp_call example_config (JStr ''1555000111'') (JStr [])])"
proof -
  have p: "request_method (post b) = ''POST''" "body (post b) = b" for b
    by (simp_all add: post_def)
  have key: "\<not> py_not (DEEPSEEK_API_KEY example_config)"
    "\<not> py_not (WHATSAPP_TOKEN example_config)" "\<not> py_not (WHATSAPP_PHONE_ID example_config)"
    by (simp_all add: example_config_def)
  have e: "extract_content (completion_body (JStr [])) = Inr (JStr [])"
    by (rule extract_content_Some) (rule first_choice_content_completion_body)
  have r: "get_deepseek_reply example_config (answers (completion_body (JStr []))) (JStr ''Hello'') []
          = (Inr (JStr []), [deepseek_call example_config (JStr ''Hello'')])"
    by (simp add: get_deepseek_reply_set [OF key(1)] answers_def e)
  have s: "send_whatsapp_message example_config (answers (completion_body (JStr [])))
             (JStr ''1555000111'') (JStr []) [deepseek_call example_config (JStr ''Hello'')]
          = (Inr True, [deepseek_call example_config (JStr ''Hello''),
                        whatsapp_call example_config (JStr ''1555000111'') (JStr [])])"
    by (simp add: send_whatsapp_message_set [OF key(2,3)] answers_def)
  have "process_message example_config (answers (completion_body (JStr []))) hello_message []
          = (Inr (), [deepseek_call example_config (JStr ''Hello''),
                      whatsapp_call example_config (JStr ''1555000111'') (JStr [])])"
    unfolding hello_message_def
    by (rule process_message_text [where user_text = "JStr ''Hello''" and ai = "JStr []"
          and sent = True and ?tr1.0 = "[deepseek_call example_config (JStr ''Hello'')]"])
       (simp_all add: r s)
  then show ?thesis
    by (simp add: webhook_post_json [OF p] process_data_Some [OF message_at_path_delivery])
qed

text \<open>
  Claim C10. For an inbound \<^verbatim>\<open>POST\<close> whose first message is an object of type
  \<^verbatim>\<open>text\<close> that has no \<^verbatim>\<open>text\<close> member, or whose \<^verbatim>\<open>text\<close> member is an object without
  \<^verbatim>\<open>body\<close>, the handler still invokes the Completion Client, with the empty string as
  the prompt (with the key configured, the completion \<^verbatim>\<open>POST\<close> goes out with the content
  \<^verbatim>\<open>""\<close>), and then the Outbound Sender with the sender of the message, or \<^verbatim>\<open>None\<close>
  when the message names none.
\<close>

theorem webhook_text_without_body:
  assumes "request_method req = ''POST''" and "body req = JsonBody data"
    and "message_at_path data = Some (JObj m)"
    and "map_of m ''type'' = Some (JStr ''text'')"
    and "map_of m ''text'' = None \<or> (\<exists>t. map_of m ''text'' = Some (JObj t) \<and> map_of t ''body'' = None)"
  shows "\<exists>ai tr1 sent tr2.
           get_deepseek_reply cfg net (JStr []) tr = (Inr ai, tr1) \<and>
           send_whatsapp_message cfg net (case map_of m ''from'' of Some v \<Rightarrow> v | None \<Rightarrow> JNull) ai tr1
             = (Inr sent, tr2) \<and>
           webhook cfg net req tr = (Inr (Tuple (Some ''OK'') 200), tr2) \<and>
           (\<not> py_not (DEEPSEEK_API_KEY cfg) \<longrightarrow> tr1 = tr @ [deepseek_call cfg (JStr [])])"
proof -
  have ut: "bindE (py_get (JObj m) ''text'' (JObj [])) (\<lambda>t. py_get t ''body'' (JStr []))
              = Inr (JStr [])"
    using assms(5) by auto
  from reply_flow [OF assms(3) assms(4) ut assms(1,2), of cfg net tr]
  obtain ai tr1 sent tr2 where
    r: "get_deepseek_reply cfg net (JStr []) tr = (Inr ai, tr1)" and
    s: "send_whatsapp_message cfg net (case map_of m ''from'' of Some v \<Rightarrow> v | None \<Rightarrow> JNull) ai tr1
          = (Inr sent, tr2)" and
    w: "webhook cfg net req tr = (Inr (Tuple (Some ''OK'') 200), tr2)"
    by blast
  have c1: "\<not> py_not (DEEPSEEK_API_KEY cfg) \<longrightarrow> tr1 = tr @ [deepseek_call cfg (JStr [])]"
    using r by (auto simp: get_deepseek_reply_set)
  from r s w c1 show ?thesis by blast
qed

theorem webhook_text_without_body_witness:
  "webhook example_config unreachable (post (JsonBody (delivery bare_text_message))) []
     = (Inr (Tuple (Some ''OK'') 200),
        [deepseek_call example_config (JStr []),
         whatsapp_call example_config (JStr ''1555000111'')
           (JStr ''Sorry, I encountered an error while processing your message.'')])"
proof -
  have p: "request_method (post b) = ''POST''" "body (post b) = b" for b
    by (simp_all add: post_def)
  have m: "message_at_path (delivery bare_text_message) =
             Some (JObj [(''from'', JStr ''1555000111''), (''type'', JStr ''text'')])"
    by (simp add: message_at_path_delivery bare_text_message_def)
  have key: "\<not> py_not (DEEPSEEK_API_KEY example_config)"
    "\<not> py_not (WHATSAPP_TOKEN example_config)" "\<not> py_not (WHATSAPP_PHONE_ID example_config)"
    by (simp_all add: example_config_def)
  have r: "get_deepseek_reply example_config unreachable (JStr []) []
          = (Inr (JStr ''Sorry, I encountered an error while processing your message.''),
             [deepseek_call example_config (JStr [])])"
    by (simp add: get_deepseek_reply_set [OF key(1)] unreachable_def fallback_error_def)
  from webhook_text_without_body [where req = "post (JsonBody (delivery bare_text_message))"
      and data = "delivery bare_text_message"
      and m = "[(''from'', JStr ''1555000111''), (''type'', JStr ''text'')]"
      and cfg = example_config and net = unreachable and tr = "[]", OF p m] r key
  show ?thesis by (auto simp: send_whatsapp_message_set unreachable_def)
qed

section \<open>Startup check: what it reports\<close>

text \<open>
  Claim C8, as amended. For every environment, the startup configuration check returns
  failure exactly when one of \<^verbatim>\<open>WHATSAPP_TOKEN\<close>, \<^verbatim>\<open>WHATSAPP_PHONE_ID\<close>,
  \<^verbatim>\<open>DEEPSEEK_API_KEY\<close> is unset or set to the empty string, and then reports exactly the
  names of those variables, in this order and separated by a comma and a space; it returns
  success when all three are set to non-empty values.
\<close>

theorem check_configuration_reports:
  "check_configuration (load_config getenv) =
     (if filter (\<lambda>n. py_not (getenv n)) [''WHATSAPP_TOKEN'', ''WHATSAPP_PHONE_ID'', ''DEEPSEEK_API_KEY''] = []
      then (True, [(INFO, ''All required environment variables are configured!'')])
      else (False,
            [(ERROR, ''Missing required environment variables: '' @
                     join '', '' (filter (\<lambda>n. py_not (getenv n))
                       [''WHATSAPP_TOKEN'', ''WHATSAPP_PHONE_ID'', ''DEEPSEEK_API_KEY''])),
             (ERROR, ''Please configure your .env file with the required credentials.'')]))"
  by (simp add: check_configuration_def load_config_def)

theorem check_configuration_reports_witness:
  "check_configuration (load_config env_only_token) =
     (False,
      [(ERROR, ''Missing required environment variables: WHATSAPP_PHONE_ID, DEEPSEEK_API_KEY''),
       (ERROR, ''Please configure your .env file with the required credentials.'')])"
  using check_configuration_reports [of env_only_token]
  by (simp add: env_only_token_def)

text \<open>
  The claim as stated speaks of unset variables. A variable that is set to the empty
  string (a line \<^verbatim>\<open>WHATSAPP_TOKEN=\<close> in the \<^verbatim>\<open>.env\<close> file) is reported as missing, and
  the check fails although all three variables are set.
\<close>

theorem check_configuration_empty_value:
  "env_empty_token ''WHATSAPP_TOKEN'' = Some [] \<and>
   env_empty_token ''WHATSAPP_PHONE_ID'' = Some ''106540352242922'' \<and>
   env_empty_token ''DEEPSEEK_API_KEY'' = Some ''sk-test'' \<and>
   check_configuration (load_config env_empty_token) =
     (False,
      [(ERROR, ''Missing required environment variables: WHATSAPP_TOKEN''),
       (ERROR, ''Please configure your .env file with the required credentials.'')])"
  by (simp add: env_empty_token_def check_configuration_def load_config_def)

end
